theory Spec2Isabelle
  imports Main "HOL-Library.Sublist" "HOL-Library.Multiset"
begin

section \<open>FocusLog: conventions of the embedding\<close>

text \<open>
  The development embeds \<^verbatim>\<open>focuslog.py\<close>.
  \<^item> A naive \<^verbatim>\<open>datetime\<close> is an \<open>int\<close>: the number of microseconds since midnight of the
    first day of the calendar. A \<^verbatim>\<open>timedelta\<close> is an \<open>int\<close> number of microseconds. Python
    stores both with microsecond resolution, so their addition, subtraction and comparison
    are exact integer operations.
  \<^item> A Python \<^verbatim>\<open>str\<close> is a \<open>string\<close>, one \<open>char\<close> per character: a \<open>char\<close> is a code
    point below 256, with the character classes Python 3 gives these code points. A text
    that holds a code point above 255 is outside the embedding.
  \<^item> The module \<^verbatim>\<open>config\<close> is not part of the sources: its constants are the fields of the
    record \<open>config\<close>, which the functions take as their first argument.
  \<^item> A leading underscore of a Python name is dropped (\<^verbatim>\<open>_anonymize_title\<close> is
    \<open>anonymize_title\<close>).
  \<^item> The collaborators (\<^verbatim>\<open>xdotool\<close>, \<^verbatim>\<open>xprintidle\<close>, D-Bus, \<^verbatim>\<open>ollama\<close>, the clock) are
    arguments: what they returned in the run that is modelled.
\<close>

type_synonym datetime = int

type_synonym timedelta = int

record config =
  KNOWN_BROWSERS :: "string list"
  TITLE_CLEANUP_RULES :: "(string \<times> string) list"
  MAX_TITLE_LENGTH :: int
  FORBIDDEN_KEYWORDS :: "string list"
  LOG_INTERVAL_SECONDS :: int
  APM_WINDOW_SECONDS :: int
  APM_POLL_INTERVAL_MS :: int
  LOG_RETENTION_HOURS :: int

text \<open>
  \<open>TITLE_CLEANUP_RULES\<close> is a \<^verbatim>\<open>dict\<close> that the code only iterates with \<^verbatim>\<open>.items()\<close>: it is
  the list of its items in iteration order. \<open>APM_POLL_INTERVAL_MS\<close> is the local
  \<^verbatim>\<open>poll_interval_ms = int(config.APM_POLL_INTERVAL_S * 1000)\<close>. \<open>LOG_INTERVAL_SECONDS\<close> and
  \<open>APM_WINDOW_SECONDS\<close> are whole numbers of seconds.
\<close>

text \<open>\<^verbatim>\<open>timedelta(seconds=n)\<close> and \<^verbatim>\<open>timedelta(hours=n)\<close>.\<close>

definition timedelta_seconds :: "int \<Rightarrow> timedelta" where
  "timedelta_seconds n = n * 1000000"

definition timedelta_hours :: "int \<Rightarrow> timedelta" where
  "timedelta_hours n = n * 3600000000"

section \<open>Python strings and numbers\<close>

text \<open>\<^verbatim>\<open>str(n)\<close> for an integer, as the f-strings of the source format it.\<close>

definition digit_char :: "nat \<Rightarrow> char" where
  "digit_char n = ''0123456789'' ! (n mod 10)"

fun show_nat :: "nat \<Rightarrow> string" where
  "show_nat n = (if n < 10 then [digit_char n] else show_nat (n div 10) @ [digit_char (n mod 10)])"

definition show_int :: "int \<Rightarrow> string" where
  "show_int i = (if i < 0 then CHR ''-'' # show_nat (nat (- i)) else show_nat (nat i))"

text \<open>\<^verbatim>\<open>int(x)\<close> of the quotient \<open>a / b\<close> (\<open>b > 0\<close>): Python truncates towards zero.\<close>

definition trunc_div :: "int \<Rightarrow> int \<Rightarrow> int" where
  "trunc_div a b = (if 0 \<le> a then a div b else - ((- a) div b))"

text \<open>\<^verbatim>\<open>s[i:]\<close>: a negative index counts from the end and is clamped at the start.\<close>

definition py_slice_from :: "'a list \<Rightarrow> int \<Rightarrow> 'a list" where
  "py_slice_from s i = (if i < 0 then drop (nat (int (length s) + i)) s else drop (nat i) s)"

text \<open>\<^verbatim>\<open>s.strip(chars)\<close> removes the characters of a class from both ends.\<close>

definition py_strip :: "(char \<Rightarrow> bool) \<Rightarrow> string \<Rightarrow> string" where
  "py_strip P s = rev (dropWhile P (rev (dropWhile P s)))"

text \<open>
  White space (\<^verbatim>\<open>str.isspace\<close>, which \<^verbatim>\<open>str.strip()\<close> and the class \<open>s\<close> of \<^verbatim>\<open>re\<close> use) and
  word characters (the class \<open>w\<close> of \<^verbatim>\<open>re\<close>, which also decides the word boundaries:
  alphanumeric characters and the underscore), on the code points below 256.
\<close>

definition is_space :: "char \<Rightarrow> bool" where
  "is_space c =
     (let n = (of_char c :: nat)
      in (9 \<le> n \<and> n \<le> 13) \<or> (28 \<le> n \<and> n \<le> 32) \<or> n = 133 \<or> n = 160)"

definition is_word_char :: "char \<Rightarrow> bool" where
  "is_word_char c =
     (let n = (of_char c :: nat)
      in (48 \<le> n \<and> n \<le> 57) \<or> (65 \<le> n \<and> n \<le> 90) \<or> n = 95 \<or> (97 \<le> n \<and> n \<le> 122)
         \<or> n = 170 \<or> (178 \<le> n \<and> n \<le> 179) \<or> n = 181 \<or> (185 \<le> n \<and> n \<le> 186)
         \<or> (188 \<le> n \<and> n \<le> 190) \<or> (192 \<le> n \<and> n \<le> 214) \<or> (216 \<le> n \<and> n \<le> 246)
         \<or> (248 \<le> n \<and> n \<le> 255))"

text \<open>
  Lower case. Under \<^verbatim>\<open>re.IGNORECASE\<close> a literal of the pattern matches a character of the
  text exactly when both have the same lower case: the capitals of ASCII and the capitals
  from 192 to 222, but for the multiplication sign 215, are 32 below their lower case.
\<close>

definition lower :: "char \<Rightarrow> char" where
  "lower c =
     (let n = (of_char c :: nat)
      in if (65 \<le> n \<and> n \<le> 90) \<or> (192 \<le> n \<and> n \<le> 222 \<and> n \<noteq> 215) then char_of (n + 32) else c)"

section \<open>The sampler: \<^verbatim>\<open>_apm_counter_thread\<close>\<close>

text \<open>
  One iteration of the \<^verbatim>\<open>while True\<close> loop of \<^verbatim>\<open>_apm_counter_thread\<close>, after the sleep.
  The state of the loop is the pair of the local \<^verbatim>\<open>last_idle_time\<close> and the global deque
  \<^verbatim>\<open>activity_ticks\<close>. The arguments are what the iteration reads from outside: the result
  of \<^verbatim>\<open>_get_idle_time_ms()\<close> (\<open>None\<close> when the read fails) and the value of
  \<^verbatim>\<open>datetime.now()\<close>.
\<close>

definition apm_counter_cycle ::
  "config \<Rightarrow> int option \<Rightarrow> datetime \<Rightarrow> int \<times> datetime list \<Rightarrow> int \<times> datetime list" where
  "apm_counter_cycle cfg current_idle_time now st =
     (case st of (last_idle_time, activity_ticks) \<Rightarrow>
        (case current_idle_time of
           None \<Rightarrow> (last_idle_time, activity_ticks)
         | Some cur \<Rightarrow>
             (if cur < last_idle_time + APM_POLL_INTERVAL_MS cfg
              then (cur, activity_ticks @ [now])
              else (cur, activity_ticks))))"

section \<open>The ledger: eviction and count in \<^verbatim>\<open>log_activity_periodically\<close>\<close>

text \<open>
  The loop \<^verbatim>\<open>while activity_ticks and activity_ticks[0] < one_minute_ago: popleft()\<close>:
  it pops from the left while the deque is not empty and its head is older than the
  cutoff.
\<close>

fun evict :: "datetime \<Rightarrow> datetime list \<Rightarrow> datetime list" where
  "evict one_minute_ago [] = []"
| "evict one_minute_ago (t # ts) =
     (if t < one_minute_ago then evict one_minute_ago ts else t # ts)"

text \<open>
  The block under \<^verbatim>\<open>activity_lock\<close>: evict, then \<^verbatim>\<open>apm_count = len(activity_ticks)\<close>.
  It returns the deque after eviction and the count.
\<close>

definition current_apm :: "config \<Rightarrow> datetime \<Rightarrow> datetime list \<Rightarrow> datetime list \<times> int" where
  "current_apm cfg now ticks =
     (let one_minute_ago = now - timedelta_seconds (APM_WINDOW_SECONDS cfg);
          ticks' = evict one_minute_ago ticks
      in (ticks', int (length ticks')))"

section \<open>The title sanitizer: \<^verbatim>\<open>_sanitize_window_title\<close>\<close>

text \<open>
  The loop over \<^verbatim>\<open>config.TITLE_CLEANUP_RULES.items()\<close>: the clean name of the first rule whose
  keyword is a substring of the title (\<^verbatim>\<open>keyword in title\<close>), or \<open>None\<close> when the loop
  ends without returning.
\<close>

fun cleanup_rule :: "(string \<times> string) list \<Rightarrow> string \<Rightarrow> string option" where
  "cleanup_rule [] title = None"
| "cleanup_rule ((keyword, clean_name) # rules) title =
     (if sublist keyword title then Some clean_name else cleanup_rule rules title)"

text \<open>
  \<^verbatim>\<open>browser_name\<close> is the first element of \<^verbatim>\<open>KNOWN_BROWSERS\<close> that the title ends with;
  \<^verbatim>\<open>if browser_name:\<close> is false for \<open>None\<close> and for the empty string.
\<close>

definition sanitize_window_title :: "config \<Rightarrow> string \<Rightarrow> string" where
  "sanitize_window_title cfg title =
     (let browser_name = find (\<lambda>browser. suffix browser title) (KNOWN_BROWSERS cfg);
          cleaned =
            (case browser_name of
               None \<Rightarrow> None
             | Some b \<Rightarrow>
                 if b = [] then None
                 else (case cleanup_rule (TITLE_CLEANUP_RULES cfg) title of
                         None \<Rightarrow> None
                       | Some clean_name \<Rightarrow> Some (clean_name @ '' - '' @ b)))
      in case cleaned of
           Some r \<Rightarrow> r
         | None \<Rightarrow>
             if int (length title) > MAX_TITLE_LENGTH cfg
             then ''...'' @ py_slice_from title (- (MAX_TITLE_LENGTH cfg - 3))
             else title)"

section \<open>The snapshot recorder: \<^verbatim>\<open>log_activity_periodically\<close>\<close>

text \<open>
  The state the recorder works on: the deque \<^verbatim>\<open>activity_ticks\<close> and the table
  \<^verbatim>\<open>activity\<close>, whose primary key is the timestamp.
\<close>

record recorder_state =
  activity_ticks :: "datetime list"
  activity :: "datetime \<rightharpoonup> string \<times> int"

text \<open>
  What one cycle reads from outside: the result of \<^verbatim>\<open>_is_screen_locked()\<close>, the result of
  \<^verbatim>\<open>_get_active_window_title()\<close>, and the successive values of \<^verbatim>\<open>datetime.now()\<close>
  (\<open>clock 0\<close> is the first call of the cycle, \<open>clock 1\<close> the second, ...).
\<close>

record recorder_env =
  screen_locked :: bool
  active_window_title :: "string option"
  clock :: "nat \<Rightarrow> datetime"

text \<open>The collaborators a cycle consults and the statements it sends to the store, in order.\<close>

datatype event =
    IsScreenLocked
  | LedgerEvictCount
  | GetActiveWindowTitle
  | InsertOrIgnore datetime string int
  | DeleteBefore datetime

text \<open>\<^verbatim>\<open>INSERT OR IGNORE\<close> and \<^verbatim>\<open>DELETE ... WHERE timestamp < ?\<close>.\<close>

definition insert_or_ignore ::
  "(datetime \<rightharpoonup> string \<times> int) \<Rightarrow> datetime \<Rightarrow> string \<times> int \<Rightarrow> (datetime \<rightharpoonup> string \<times> int)" where
  "insert_or_ignore tbl ts v = (case tbl ts of None \<Rightarrow> tbl(ts \<mapsto> v) | Some _ \<Rightarrow> tbl)"

definition delete_before ::
  "datetime \<Rightarrow> (datetime \<rightharpoonup> string \<times> int) \<Rightarrow> (datetime \<rightharpoonup> string \<times> int)" where
  "delete_before cutoff tbl = (\<lambda>ts. if ts < cutoff then None else tbl ts)"

text \<open>
  One iteration of the loop of \<^verbatim>\<open>log_activity_periodically\<close>, after the sleep, for a store
  that accepts both statements. It returns the new state and the events of the cycle.
\<close>

definition log_activity_cycle ::
  "config \<Rightarrow> recorder_env \<Rightarrow> recorder_state \<Rightarrow> recorder_state \<times> event list" where
  "log_activity_cycle cfg env st =
     (let (final_title, apm_count, ticks', events, k) =
            (if screen_locked env
             then (''USER_AFK_LOCKED'', 0, activity_ticks st, [IsScreenLocked], 0)
             else
               (let now = clock env 0;
                    (ticks', apm_count) = current_apm cfg now (activity_ticks st);
                    raw_title =
                      (case active_window_title env of
                         None \<Rightarrow> ''Desktop''
                       | Some t \<Rightarrow> if t = [] then ''Desktop'' else t)
                in (sanitize_window_title cfg raw_title, apm_count, ticks',
                    [IsScreenLocked, LedgerEvictCount, GetActiveWindowTitle], Suc 0)));
          timestamp = clock env k;
          cutoff = clock env (Suc k) - timedelta_hours (LOG_RETENTION_HOURS cfg);
          tbl = delete_before cutoff (insert_or_ignore (activity st) timestamp (final_title, apm_count))
      in (\<lparr>activity_ticks = ticks', activity = tbl\<rparr>,
          events @ [InsertOrIgnore timestamp final_title apm_count, DeleteBefore cutoff]))"

section \<open>The two-stage redactor: \<^verbatim>\<open>_anonymize_title\<close>\<close>

subsection \<open>Stage 1: the forbidden keywords\<close>

text \<open>
  \<^verbatim>\<open>FORBIDDEN_PATTERN\<close> is the word boundary, the alternation of the escaped keywords in
  their configured order, and the word boundary again, compiled with \<^verbatim>\<open>re.IGNORECASE\<close>.

  A word boundary stands between two positions of which exactly one holds a word
  character; the start and the end of the string count as holding none.
\<close>

definition hd_opt :: "'a list \<Rightarrow> 'a option" where
  "hd_opt s = (case s of [] \<Rightarrow> None | c # _ \<Rightarrow> Some c)"

definition is_word_opt :: "char option \<Rightarrow> bool" where
  "is_word_opt c = (case c of None \<Rightarrow> False | Some x \<Rightarrow> is_word_char x)"

definition at_boundary :: "char option \<Rightarrow> char option \<Rightarrow> bool" where
  "at_boundary prev nxt = (is_word_opt prev \<noteq> is_word_opt nxt)"

text \<open>
  One escaped keyword matched at the head of the text, ignoring case: the last character
  it consumed and the rest of the text. The second argument is the character consumed
  last so far.
\<close>

fun ci_match :: "string \<Rightarrow> char \<Rightarrow> string \<Rightarrow> (char \<times> string) option" where
  "ci_match [] lastc s = Some (lastc, s)"
| "ci_match (k # ks) lastc [] = None"
| "ci_match (k # ks) lastc (c # cs) = (if lower k = lower c then ci_match ks c cs else None)"

text \<open>
  The alternation followed by the closing word boundary: the alternatives are tried in
  order, and the matcher backtracks into the next one when the closing boundary fails.
  An empty keyword can only match the empty string; \<^verbatim>\<open>sub\<close> replaces a match by the
  empty string, so an empty match changes nothing, and after it the search is resumed at
  the same position for a match that is not empty: an empty alternative is skipped.
\<close>

fun first_alternative :: "string list \<Rightarrow> string \<Rightarrow> (char \<times> string) option" where
  "first_alternative [] s = None"
| "first_alternative ([] # kws) s = first_alternative kws s"
| "first_alternative ((k # ks) # kws) s =
     (case ci_match (k # ks) k s of
        None \<Rightarrow> first_alternative kws s
      | Some (lastc, rest) \<Rightarrow>
          if at_boundary (Some lastc) (hd_opt rest) then Some (lastc, rest)
          else first_alternative kws s)"

text \<open>The whole pattern at one position; \<open>prev\<close> is the character before the position.\<close>

definition forbidden_match :: "string list \<Rightarrow> char option \<Rightarrow> string \<Rightarrow> (char \<times> string) option" where
  "forbidden_match kws prev s =
     (if at_boundary prev (hd_opt s) then first_alternative kws s else None)"

text \<open>
  \<^verbatim>\<open>FORBIDDEN_PATTERN.sub("", title)\<close>: the text is scanned from the left; where the
  pattern matches, the match is dropped and the scan goes on after it; elsewhere the
  character is kept.
\<close>

function sub_forbidden :: "string list \<Rightarrow> char option \<Rightarrow> string \<Rightarrow> string" where
  "sub_forbidden kws prev [] = []"
| "sub_forbidden kws prev (c # cs) =
     (case forbidden_match kws prev (c # cs) of
        Some (lastc, rest) \<Rightarrow> sub_forbidden kws (Some lastc) rest
      | None \<Rightarrow> c # sub_forbidden kws (Some c) cs)"
  by pat_completeness auto
termination
proof (relation "measure (\<lambda>(kws, prev, s). length s)")
  have cm: "ci_match kw lastc s = Some (lc, rest) \<Longrightarrow> length s = length kw + length rest"
    for kw lastc s lc rest
    by (induction kw lastc s rule: ci_match.induct) (auto split: if_splits)
  have fa: "first_alternative kws s = Some (lc, rest) \<Longrightarrow> length rest < length s"
    for kws s lc rest
  proof (induction kws s rule: first_alternative.induct)
    case (3 k ks kws s)
    then show ?case by (auto split: option.splits if_splits dest: cm)
  qed simp_all
  show "wf (measure (\<lambda>(kws, prev, s). length s))" by simp
  show "((kws, Some lastc, rest), kws, prev, c # cs) \<in> measure (\<lambda>(kws, prev, s). length s)"
    if "forbidden_match kws prev (c # cs) = Some x2" and "(lastc, rest) = x2"
    for kws prev c cs x2 lastc rest
    using that fa [of kws "c # cs" lastc rest]
    by (auto simp: forbidden_match_def split: if_splits)
  show "((kws, Some c, cs), kws, prev, c # cs) \<in> measure (\<lambda>(kws, prev, s). length s)"
    for kws prev c cs
    by simp
qed

text \<open>
  \<^verbatim>\<open>re.sub(r'\s*-\s*-\s*', ' - ', s)\<close>. The pattern matches at a position when, after
  all the white space there, a dash follows, then all the white space, a second dash,
  and it takes all the white space after that: a greedy star that gives back white space
  cannot make a dash appear. The function returns the rest of the text after the match.
\<close>

definition dash_dash_match :: "string \<Rightarrow> string option" where
  "dash_dash_match s =
     (case dropWhile is_space s of
        [] \<Rightarrow> None
      | c # s2 \<Rightarrow>
          if c \<noteq> CHR ''-'' then None
          else (case dropWhile is_space s2 of
                  [] \<Rightarrow> None
                | d # s4 \<Rightarrow> if d \<noteq> CHR ''-'' then None else Some (dropWhile is_space s4)))"

function collapse_dashes :: "string \<Rightarrow> string" where
  "collapse_dashes [] = []"
| "collapse_dashes (c # cs) =
     (case dash_dash_match (c # cs) of
        Some rest \<Rightarrow> '' - '' @ collapse_dashes rest
      | None \<Rightarrow> c # collapse_dashes cs)"
  by pat_completeness auto
termination
proof (relation "measure length")
  show "wf (measure length)" by simp
  show "(rest, c # cs) \<in> measure length" if m: "dash_dash_match (c # cs) = Some rest"
    for c cs rest
  proof -
    have le: "length (dropWhile P xs) \<le> length xs" for P and xs :: string
      by (rule length_dropWhile_le)
    from m obtain s2 s4 where a: "dropWhile is_space (c # cs) = CHR ''-'' # s2"
      and b: "dropWhile is_space s2 = CHR ''-'' # s4" and r: "rest = dropWhile is_space s4"
      by (auto simp: dash_dash_match_def split: list.splits if_splits)
    have "length rest \<le> length s4" using r le by simp
    moreover have "length s4 < length s2" using le [of is_space s2] b by simp
    moreover have "length s2 < length (c # cs)" using le [of is_space "c # cs"] a by simp
    ultimately show ?thesis by simp
  qed
  show "(cs, c # cs) \<in> measure length" for c :: char and cs :: string
    by simp
qed

definition is_space_or_dash :: "char \<Rightarrow> bool" where
  "is_space_or_dash c = (c = CHR '' '' \<or> c = CHR ''-'')"

text \<open>
  The body of \<^verbatim>\<open>if FORBIDDEN_PATTERN:\<close>, which computes \<^verbatim>\<open>pre_sanitized_title\<close>. The
  pattern is compiled only when \<^verbatim>\<open>config.FORBIDDEN_KEYWORDS\<close> is not empty, and is
  \<open>None\<close> otherwise.
\<close>

definition pre_sanitize :: "config \<Rightarrow> string \<Rightarrow> string" where
  "pre_sanitize cfg title =
     (if FORBIDDEN_KEYWORDS cfg \<noteq> []
      then py_strip is_space_or_dash
             (collapse_dashes
               (py_strip is_space (sub_forbidden (FORBIDDEN_KEYWORDS cfg) None title)))
      else title)"

subsection \<open>Stage 2: the external rewrite\<close>

text \<open>
  \<^verbatim>\<open>_run_command\<close> returns the output of the command, or \<open>None\<close> after a timeout or a
  non-zero exit status; any other exception of \<^verbatim>\<open>subprocess.run\<close> leaves it uncaught.
\<close>

datatype error = UncaughtException

type_synonym command = "string \<Rightarrow> error + string option"

definition prompt_of :: "string \<Rightarrow> string" where
  \<open>prompt_of pre_sanitized_title =
     ''\<newline>You are a text sanitization filter. Your only task is to analyze the following window title and remove any Personally Identifiable Information (PII) like email addresses, real names, or usernames/nicknames. Keep all other information intact. You must only output the sanitized title.\<newline>Examples:\<newline>- Input: "@some_user - General - My Discord Server"\<newline>- Output: "General - My Discord Server"\<newline>- Input: "main.py - MySecretProject - Visual Studio Code"\<newline>- Output: "main.py - MySecretProject - Visual Studio Code"\<newline>Now, sanitize this window title:\<newline>Input: "''
     @ pre_sanitized_title @ ''"\<newline>Output:\<newline>''\<close>

text \<open>\<open>ollama\<close> is \<^verbatim>\<open>_run_command(['ollama', 'run', ...], input_text=prompt, ...)\<close> as a function of the prompt.\<close>

definition anonymize_title :: "config \<Rightarrow> command \<Rightarrow> string \<Rightarrow> error + string" where
  "anonymize_title cfg ollama title =
     (let pre_sanitized_title = pre_sanitize cfg title
      in case ollama (prompt_of pre_sanitized_title) of
           Inl e \<Rightarrow> Inl e
         | Inr None \<Rightarrow> Inr pre_sanitized_title
         | Inr (Some sanitized_title) \<Rightarrow> Inr sanitized_title)"

section \<open>The timeline compressor: \<^verbatim>\<open>get_activity_log\<close>\<close>

text \<open>A row of the table: timestamp, title and APM (\<open>None\<close> for SQL \<^verbatim>\<open>NULL\<close>).\<close>

type_synonym row = "datetime \<times> string \<times> int option"

text \<open>A block of the timeline: start, duration, title and average APM.\<close>

type_synonym block = "datetime \<times> timedelta \<times> string \<times> int"

text \<open>
  \<^verbatim>\<open>unique_titles\<close> is a Python set, which has no duplicates and no specified order: the
  model lists its elements in the order of their first row.
\<close>

definition unique_titles :: "row list \<Rightarrow> string list" where
  "unique_titles raw_rows =
     remdups (filter (\<lambda>title. title \<noteq> [] \<and> \<not> sublist ''USER_AFK'' title)
                     (map (\<lambda>(_, title, _). title) raw_rows))"

definition titles_to_anonymize :: "(string \<rightharpoonup> string) \<Rightarrow> string list \<Rightarrow> string list" where
  "titles_to_anonymize anonymization_cache titles =
     filter (\<lambda>title. anonymization_cache title = None) titles"

text \<open>
  The loop over the futures: one call of \<^verbatim>\<open>_anonymize_title\<close> for each title of the list,
  whose result goes to the cache; when the call raised, the title itself goes there. The
  calls run in a thread pool; each depends on its title only, so the model makes them in
  the order of the list.
\<close>

fun fill_cache :: "config \<Rightarrow> command \<Rightarrow> string list \<Rightarrow> (string \<rightharpoonup> string) \<Rightarrow> (string \<rightharpoonup> string)" where
  "fill_cache cfg ollama [] cache = cache"
| "fill_cache cfg ollama (original_title # ts) cache =
     fill_cache cfg ollama ts
       (cache(original_title \<mapsto>
          (case anonymize_title cfg ollama original_title of
             Inr sanitized_result \<Rightarrow> sanitized_result
           | Inl exc \<Rightarrow> original_title)))"

definition anonymization_map :: "(string \<rightharpoonup> string) \<Rightarrow> string list \<Rightarrow> (string \<rightharpoonup> string)" where
  "anonymization_map anonymization_cache titles =
     (\<lambda>title. if title \<in> set titles
               then Some (case anonymization_cache title of Some v \<Rightarrow> v | None \<Rightarrow> title)
               else None)"

text \<open>\<^verbatim>\<open>anonymization_map.get(title, title)\<close>.\<close>

definition anonymized_title :: "(string \<rightharpoonup> string) \<Rightarrow> string \<Rightarrow> string" where
  "anonymized_title amap title = (case amap title of Some v \<Rightarrow> v | None \<Rightarrow> title)"

text \<open>
  \<^verbatim>\<open>int(statistics.mean(values)) if values else 0\<close>. The mean of integers is their exact
  quotient (converted to a float when it is not whole), and \<^verbatim>\<open>int\<close> truncates it towards
  zero.
\<close>

definition avg_apm :: "int list \<Rightarrow> int" where
  "avg_apm values = (if values = [] then 0 else trunc_div (sum_list values) (int (length values)))"

text \<open>
  The state of the loop over the rows: the timeline so far and the open block, that is
  the three locals \<^verbatim>\<open>current_block_title\<close>, \<^verbatim>\<open>current_block_start_time\<close> and
  \<^verbatim>\<open>current_block_apm_values\<close>, which the source sets together; \<open>None\<close> is the initial
  state, where \<^verbatim>\<open>current_block_title is None\<close>.
\<close>

record loop_state =
  timeline :: "block list"
  current_block :: "(string \<times> datetime \<times> int list) option"

definition timeline_step :: "(string \<rightharpoonup> string) \<Rightarrow> loop_state \<Rightarrow> row \<Rightarrow> loop_state" where
  "timeline_step amap st r =
     (case r of (timestamp, title, apm) \<Rightarrow>
        (let a_title = anonymized_title amap title;
             new_values = (case apm of None \<Rightarrow> [] | Some a \<Rightarrow> [a])
         in case current_block st of
              None \<Rightarrow> st\<lparr>current_block := Some (a_title, timestamp, new_values)\<rparr>
            | Some (cur_title, cur_start, cur_values) \<Rightarrow>
                if a_title \<noteq> cur_title
                then st\<lparr>timeline := timeline st @
                           [(cur_start, timestamp - cur_start, cur_title, avg_apm cur_values)],
                        current_block := Some (a_title, timestamp, new_values)\<rparr>
                else (case apm of
                        None \<Rightarrow> st
                      | Some a \<Rightarrow> st\<lparr>current_block := Some (cur_title, cur_start, cur_values @ [a])\<rparr>)))"

fun timeline_loop :: "(string \<rightharpoonup> string) \<Rightarrow> row list \<Rightarrow> loop_state \<Rightarrow> loop_state" where
  "timeline_loop amap [] st = st"
| "timeline_loop amap (r # rows) st = timeline_loop amap rows (timeline_step amap st r)"

text \<open>The loop and the closing of the trailing block, at the time \<open>now\<close>.\<close>

definition build_timeline :: "(string \<rightharpoonup> string) \<Rightarrow> datetime \<Rightarrow> row list \<Rightarrow> block list" where
  "build_timeline amap now raw_rows =
     (let st = timeline_loop amap raw_rows \<lparr>timeline = [], current_block = None\<rparr>
      in case current_block st of
           None \<Rightarrow> timeline st
         | Some (cur_title, cur_start, cur_values) \<Rightarrow>
             timeline st @ [(cur_start, now - cur_start, cur_title, avg_apm cur_values)])"

subsection \<open>Rendering\<close>

text \<open>
  \<^verbatim>\<open>_format_duration_compact\<close>; \<open>seconds\<close> is \<^verbatim>\<open>int(duration.total_seconds())\<close>, and
  \<^verbatim>\<open>divmod\<close> is the floor division of Python, which is \<open>div\<close> and \<open>mod\<close> on \<open>int\<close>.
\<close>

definition format_duration_compact :: "timedelta \<Rightarrow> string" where
  "format_duration_compact duration =
     (let seconds = trunc_div duration 1000000
      in if seconds < 60 then show_int seconds @ ''s''
         else (let minutes = seconds div 60
               in if minutes < 60 then show_int minutes @ ''m''
                  else (let hours = minutes div 60; rem_minutes = minutes mod 60
                        in if rem_minutes = 0 then show_int hours @ ''h''
                           else show_int hours @ ''h'' @ show_int rem_minutes @ ''m'')))"

text \<open>\<^verbatim>\<open>start.strftime('%H:%M')\<close>: hour and minute of the day, two digits each.\<close>

definition two_digits :: "int \<Rightarrow> string" where
  "two_digits n = [digit_char (nat n div 10), digit_char (nat n mod 10)]"

definition strftime_HM :: "datetime \<Rightarrow> string" where
  "strftime_HM t = two_digits ((t div 3600000000) mod 24) @ '':'' @ two_digits ((t div 60000000) mod 60)"

text \<open>
  The test \<^verbatim>\<open>duration.total_seconds() < config.LOG_INTERVAL_SECONDS / 2\<close>, on exact
  numbers: \<open>duration / 10^6 < LOG_INTERVAL_SECONDS / 2\<close>.
\<close>

definition too_short :: "config \<Rightarrow> timedelta \<Rightarrow> bool" where
  "too_short cfg duration = (2 * duration < LOG_INTERVAL_SECONDS cfg * 1000000)"

text \<open>The loop over the timeline, which appends to \<^verbatim>\<open>timeline_str\<close>.\<close>

fun render_loop :: "config \<Rightarrow> block list \<Rightarrow> string \<Rightarrow> string" where
  "render_loop cfg [] timeline_str = timeline_str"
| "render_loop cfg ((start, duration, title, avg) # blocks) timeline_str =
     (if too_short cfg duration then render_loop cfg blocks timeline_str
      else
        (let start_f = strftime_HM start;
             duration_f = format_duration_compact duration
         in if sublist ''USER_AFK'' title
            then render_loop cfg blocks
                   (timeline_str @ start_f @ '' ('' @ duration_f @ ''): '' @ title @ ''\<newline>'')
            else render_loop cfg blocks
                   (timeline_str @ start_f @ '' ('' @ duration_f @ ''): (Avg APM: '' @ show_int avg
                      @ '') '' @ title @ ''\<newline>'')))"

definition render_timeline :: "config \<Rightarrow> int \<Rightarrow> block list \<Rightarrow> string" where
  "render_timeline cfg hours_ago blocks =
     py_strip is_space
       (render_loop cfg blocks
          (''Timeline of focused windows & AFK status (last '' @ show_int hours_ago @ ''h):\<newline>''))"

subsection \<open>The tool\<close>

text \<open>
  \<^verbatim>\<open>get_activity_log\<close>. The arguments after the configuration are what the call reads from
  outside: the external rewrite command, the value of \<^verbatim>\<open>datetime.now()\<close> when the trailing
  block is closed, the result of the query (\<open>None\<close> when it raised \<^verbatim>\<open>sqlite3.Error\<close>) and
  the cache. It returns the cache after the call, the titles for which it called
  \<^verbatim>\<open>_anonymize_title\<close>, and the text.
\<close>

definition get_activity_log ::
  "config \<Rightarrow> command \<Rightarrow> datetime \<Rightarrow> int \<Rightarrow> row list option \<Rightarrow> (string \<rightharpoonup> string)
     \<Rightarrow> (string \<rightharpoonup> string) \<times> string list \<times> string" where
  "get_activity_log cfg ollama now hours_ago0 query anonymization_cache =
     (let hours_ago = max 1 (min hours_ago0 (LOG_RETENTION_HOURS cfg))
      in case query of
           None \<Rightarrow> (anonymization_cache, [], ''Error: Could not retrieve data from the activity log.'')
         | Some raw_rows \<Rightarrow>
             if raw_rows = []
             then (anonymization_cache, [],
                   ''No activity recorded in the last '' @ show_int hours_ago @ '' hour(s).'')
             else
               (let titles = unique_titles raw_rows;
                    todo = titles_to_anonymize anonymization_cache titles;
                    cache' = fill_cache cfg ollama todo anonymization_cache;
                    amap = anonymization_map cache' titles;
                    blocks = build_timeline amap now raw_rows
                in (cache', todo, render_timeline cfg hours_ago blocks)))"

section \<open>Notions used to state the properties\<close>

subsection \<open>Runs of rows and their blocks\<close>

text \<open>The label of a row under the title map, its timestamp and the APM values of rows.\<close>

definition row_label :: "(string \<rightharpoonup> string) \<Rightarrow> row \<Rightarrow> string" where
  "row_label amap r = (case r of (_, title, _) \<Rightarrow> anonymized_title amap title)"









subsection \<open>Lines of the rendered text\<close>

text \<open>The line of one block, as the renderer writes it.\<close>

definition block_line :: "block \<Rightarrow> string" where
  "block_line b =
     (case b of (start, duration, title, avg) \<Rightarrow>
        strftime_HM start @ '' ('' @ format_duration_compact duration @ ''): ''
          @ (if sublist ''USER_AFK'' title then [] else ''(Avg APM: '' @ show_int avg @ '') '')
          @ title @ ''\<newline>'')"

subsection \<open>Words and whole-word matches\<close>








section \<open>Example data\<close>

definition demo_config :: config where
  "demo_config =
     \<lparr>KNOWN_BROWSERS = [''Mozilla Firefox'', ''Google Chrome''],
      TITLE_CLEANUP_RULES = [(''YouTube'', ''YouTube''), (''GitHub'', ''GitHub'')],
      MAX_TITLE_LENGTH = 20,
      FORBIDDEN_KEYWORDS = [''Alice'', ''secret''],
      LOG_INTERVAL_SECONDS = 60,
      APM_WINDOW_SECONDS = 60,
      APM_POLL_INTERVAL_MS = 200,
      LOG_RETENTION_HOURS = 24\<rparr>"

definition demo_env :: recorder_env where
  "demo_env = \<lparr>screen_locked = True, active_window_title = Some ''Inbox - Mozilla Firefox'',
                clock = (\<lambda>k. 90000000000 + int k)\<rparr>"




definition demo_ollama_down :: command where
  "demo_ollama_down = (\<lambda>prompt. Inr None)"




definition demo_afk_rows :: "row list" where
  "demo_afk_rows = [(36000000000, ''USER_AFK_LOCKED'', Some 0), (36060000000, ''USER_AFK_LOCKED'', Some 0),
                    (36120000000, ''USER_AFK_LOCKED'', Some 0)]"

definition demo_blocks :: "block list" where
  "demo_blocks =
     [(36000000000, 45000000, ''Editor'', 12),
      (36045000000, 20000000, ''Terminal'', 30),
      (36065000000, 7200000000, ''USER_AFK_LOCKED'', 0),
      (43265000000, 5400000000, ''Mail'', 4)]"

section \<open>Properties of the sampler and the ledger\<close>

lemma evict_sorted:
  "sorted ts \<Longrightarrow> evict c ts = filter (\<lambda>t. c \<le> t) ts"
proof (induction ts)
  case Nil
  show ?case by simp
next
  case (Cons t ts)
  show ?case
  proof (cases "t < c")
    case True
    with Cons show ?thesis by simp
  next
    case False
    with Cons.prems have "\<forall>u \<in> set ts. c \<le> u" by auto
    then have "filter (\<lambda>t. c \<le> t) ts = ts" by (simp add: filter_id_conv)
    with False show ?thesis by simp
  qed
qed

text \<open>
  Claim C2. For a tick buffer in ascending timestamp order and any call time \<open>now\<close>, the
  evict-then-count step keeps exactly the ticks with timestamp \<open>\<ge> now - APM_WINDOW\<close>, in
  their order, so that the ticks it removes are exactly those with timestamp
  \<open>< now - APM_WINDOW\<close> and the tick at exactly \<open>now - APM_WINDOW\<close> stays; the APM it
  returns is the number of ticks of the buffer with timestamp \<open>\<ge> now - APM_WINDOW\<close>.
\<close>

theorem current_apm_sorted:
  assumes "sorted ticks"
  shows "fst (current_apm cfg now ticks) =
           filter (\<lambda>t. now - timedelta_seconds (APM_WINDOW_SECONDS cfg) \<le> t) ticks
       \<and> mset ticks = mset (fst (current_apm cfg now ticks)) +
           filter_mset (\<lambda>t. t < now - timedelta_seconds (APM_WINDOW_SECONDS cfg)) (mset ticks)
       \<and> snd (current_apm cfg now ticks) =
           int (card {i. i < length ticks \<and>
                         now - timedelta_seconds (APM_WINDOW_SECONDS cfg) \<le> ticks ! i})"
proof -
  let ?c = "now - timedelta_seconds (APM_WINDOW_SECONDS cfg)"
  have 1: "fst (current_apm cfg now ticks) = filter (\<lambda>t. ?c \<le> t) ticks"
    using assms by (simp add: current_apm_def Let_def evict_sorted)
  have "snd (current_apm cfg now ticks) = int (length (filter (\<lambda>t. ?c \<le> t) ticks))"
    using assms by (simp add: current_apm_def Let_def evict_sorted)
  then have 2: "snd (current_apm cfg now ticks) =
      int (card {i. i < length ticks \<and> ?c \<le> ticks ! i})"
    by (simp add: length_filter_conv_card)
  have "mset ticks = filter_mset (\<lambda>t. ?c \<le> t) (mset ticks) + filter_mset (\<lambda>t. \<not> ?c \<le> t) (mset ticks)"
    by (rule multiset_partition)
  then have 3: "mset ticks = mset (fst (current_apm cfg now ticks)) +
           filter_mset (\<lambda>t. t < ?c) (mset ticks)"
    by (simp add: 1 not_le)
  from 1 2 3 show ?thesis by blast
qed

theorem current_apm_sorted_witness:
  "sorted [0, 40000000, 100000000 :: int]
   \<and> fst (current_apm demo_config 100000000 [0, 40000000, 100000000]) = [40000000, 100000000]
   \<and> snd (current_apm demo_config 100000000 [0, 40000000, 100000000]) = 2"
proof -
  have s: "sorted [0, 40000000, 100000000 :: int]" by simp
  have "fst (current_apm demo_config 100000000 [0, 40000000, 100000000])
          = filter (\<lambda>t. 100000000 - timedelta_seconds (APM_WINDOW_SECONDS demo_config) \<le> t)
              [0, 40000000, 100000000]"
    using current_apm_sorted [OF s, of demo_config 100000000] by blast
  then have "fst (current_apm demo_config 100000000 [0, 40000000, 100000000]) = [40000000, 100000000]"
    by (simp add: demo_config_def timedelta_seconds_def)
  moreover have "snd (current_apm demo_config 100000000 [0, 40000000, 100000000]) = 2"
    by (simp add: current_apm_def demo_config_def timedelta_seconds_def)
  ultimately show ?thesis using s by blast
qed

text \<open>
  Claim C9. In a poll cycle of the sampler: when the idle-time read returns \<open>I\<close>, exactly one
  tick with timestamp \<open>now\<close> is appended to the buffer if \<open>I < I_prev + T_poll\<close> (in
  milliseconds) and the buffer is unchanged otherwise, and \<open>I_prev\<close> becomes \<open>I\<close> in both
  cases; when the read fails, the buffer and \<open>I_prev\<close> are unchanged.
\<close>

theorem apm_counter_cycle_spec:
  "(idle = Some I \<and> I < I_prev + APM_POLL_INTERVAL_MS cfg \<longrightarrow>
      apm_counter_cycle cfg idle now (I_prev, ticks) = (I, ticks @ [now]))
   \<and> (idle = Some I \<and> \<not> I < I_prev + APM_POLL_INTERVAL_MS cfg \<longrightarrow>
      apm_counter_cycle cfg idle now (I_prev, ticks) = (I, ticks))
   \<and> (idle = None \<longrightarrow>
      apm_counter_cycle cfg idle now (I_prev, ticks) = (I_prev, ticks))"
  by (simp add: apm_counter_cycle_def)

theorem apm_counter_cycle_spec_witness:
  "apm_counter_cycle demo_config (Some 150) 7 (100, [1, 2]) = (150, [1, 2, 7])
   \<and> apm_counter_cycle demo_config (Some 900) 7 (100, [1, 2]) = (900, [1, 2])
   \<and> apm_counter_cycle demo_config None 7 (100, [1, 2]) = (100, [1, 2])"
proof -
  have a: "(150::int) < 100 + APM_POLL_INTERVAL_MS demo_config"
    and b: "\<not> (900::int) < 100 + APM_POLL_INTERVAL_MS demo_config"
    by (simp_all add: demo_config_def)
  have "apm_counter_cycle demo_config (Some 150) 7 (100, [1, 2]) = (150, [1, 2] @ [7])"
    using apm_counter_cycle_spec [of "Some 150" 150 100 demo_config 7 "[1, 2]"] a by blast
  moreover have "apm_counter_cycle demo_config (Some 900) 7 (100, [1, 2]) = (900, [1, 2])"
    using apm_counter_cycle_spec [of "Some 900" 900 100 demo_config 7 "[1, 2]"] b by blast
  moreover have "apm_counter_cycle demo_config None 7 (100, [1, 2]) = (100, [1, 2])"
    using apm_counter_cycle_spec [of None 0 100 demo_config 7 "[1, 2]"] by blast
  ultimately show ?thesis by simp
qed

section \<open>Properties of the title sanitizer\<close>

lemma cleanup_rule_first:
  "rules = pre @ (k, c) # post \<Longrightarrow> sublist k title \<Longrightarrow>
   (\<forall>(k', c') \<in> set pre. \<not> sublist k' title) \<Longrightarrow> cleanup_rule rules title = Some c"
  by (induction pre arbitrary: rules) auto

lemma cleanup_rule_none:
  "(\<forall>(k, c) \<in> set rules. \<not> sublist k title) \<Longrightarrow> cleanup_rule rules title = None"
  by (induction rules) auto

lemma find_first:
  "xs = pre @ b # post \<Longrightarrow> P b \<Longrightarrow> (\<forall>b' \<in> set pre. \<not> P b') \<Longrightarrow> find P xs = Some b"
  by (induction pre arbitrary: xs) auto

lemma sanitize_fallthrough:
  assumes "(\<forall>b \<in> set (KNOWN_BROWSERS cfg). \<not> suffix b title)
        \<or> (\<forall>(k, c) \<in> set (TITLE_CLEANUP_RULES cfg). \<not> sublist k title)"
  shows "sanitize_window_title cfg title =
           (if int (length title) > MAX_TITLE_LENGTH cfg
            then ''...'' @ py_slice_from title (- (MAX_TITLE_LENGTH cfg - 3)) else title)"
proof -
  have "find (\<lambda>browser. suffix browser title) (KNOWN_BROWSERS cfg) = None
        \<or> cleanup_rule (TITLE_CLEANUP_RULES cfg) title = None"
    using assms by (auto simp: find_None_iff cleanup_rule_none)
  then show ?thesis
    by (auto simp: sanitize_window_title_def split: option.splits)
qed

lemma py_slice_last:
  assumes "0 < n" "n < int (length s)"
  shows "\<exists>front rear. s = front @ rear \<and> int (length rear) = n \<and> py_slice_from s (- n) = rear"
proof -
  let ?k = "nat (int (length s) - n)"
  have "s = take ?k s @ drop ?k s" by simp
  moreover have "int (length (drop ?k s)) = n" using assms by simp
  moreover have "py_slice_from s (- n) = drop ?k s" using assms by (simp add: py_slice_from_def)
  ultimately show ?thesis by blast
qed

text \<open>
  Claim C6. For every raw title, when the known browsers hold no empty string and
  \<open>MAX_TITLE_LENGTH > 3\<close>: if the title ends with a known browser suffix (\<open>b\<close> being the
  first such suffix in configured order) and some cleanup keyword is a substring of the
  title, the result is \<open>clean_name - b\<close> for the first such keyword in configured order;
  otherwise, if the title is longer than \<open>MAX_TITLE_LENGTH\<close>, the result is \<open>...\<close>
  followed by the last \<open>MAX_TITLE_LENGTH - 3\<close> characters of the title; otherwise it is the
  title unchanged.
\<close>

theorem sanitize_window_title_spec:
  assumes max: "3 < MAX_TITLE_LENGTH cfg" and nonempty: "[] \<notin> set (KNOWN_BROWSERS cfg)"
  shows
   "(\<forall>bpre b bpost pre k c post.
       KNOWN_BROWSERS cfg = bpre @ b # bpost \<and> suffix b title \<and> (\<forall>b' \<in> set bpre. \<not> suffix b' title)
       \<and> TITLE_CLEANUP_RULES cfg = pre @ (k, c) # post \<and> sublist k title
       \<and> (\<forall>(k', c') \<in> set pre. \<not> sublist k' title)
       \<longrightarrow> sanitize_window_title cfg title = c @ '' - '' @ b)
    \<and> ((\<forall>b \<in> set (KNOWN_BROWSERS cfg). \<not> suffix b title)
        \<or> (\<forall>(k, c) \<in> set (TITLE_CLEANUP_RULES cfg). \<not> sublist k title)
       \<longrightarrow> (MAX_TITLE_LENGTH cfg < int (length title) \<longrightarrow>
              (\<exists>front rear. title = front @ rear \<and> int (length rear) = MAX_TITLE_LENGTH cfg - 3
                 \<and> sanitize_window_title cfg title = ''...'' @ rear))
          \<and> (\<not> MAX_TITLE_LENGTH cfg < int (length title) \<longrightarrow>
              sanitize_window_title cfg title = title))"
proof (intro conjI allI impI)
  fix bpre b bpost pre k c post
  assume a: "KNOWN_BROWSERS cfg = bpre @ b # bpost \<and> suffix b title \<and> (\<forall>b' \<in> set bpre. \<not> suffix b' title)
       \<and> TITLE_CLEANUP_RULES cfg = pre @ (k, c) # post \<and> sublist k title
       \<and> (\<forall>(k', c') \<in> set pre. \<not> sublist k' title)"
  then have f: "find (\<lambda>browser. suffix browser title) (KNOWN_BROWSERS cfg) = Some b"
    by (intro find_first [where pre = bpre and post = bpost]) auto
  from a have "b \<in> set (KNOWN_BROWSERS cfg)" by simp
  with nonempty have ne: "b \<noteq> []" by auto
  from a have r: "cleanup_rule (TITLE_CLEANUP_RULES cfg) title = Some c"
    by (intro cleanup_rule_first [where pre = pre and post = post and k = k]) auto
  show "sanitize_window_title cfg title = c @ '' - '' @ b"
    by (simp add: sanitize_window_title_def f ne r)
next
  assume a: "(\<forall>b \<in> set (KNOWN_BROWSERS cfg). \<not> suffix b title)
        \<or> (\<forall>(k, c) \<in> set (TITLE_CLEANUP_RULES cfg). \<not> sublist k title)"
  assume long: "MAX_TITLE_LENGTH cfg < int (length title)"
  have fall: "sanitize_window_title cfg title = ''...'' @ py_slice_from title (- (MAX_TITLE_LENGTH cfg - 3))"
    using sanitize_fallthrough [OF a] long by simp
  from py_slice_last [of "MAX_TITLE_LENGTH cfg - 3" title] max long
  obtain front rear where "title = front @ rear" "int (length rear) = MAX_TITLE_LENGTH cfg - 3"
    "py_slice_from title (- (MAX_TITLE_LENGTH cfg - 3)) = rear" by auto
  with fall show "\<exists>front rear. title = front @ rear \<and> int (length rear) = MAX_TITLE_LENGTH cfg - 3
                 \<and> sanitize_window_title cfg title = ''...'' @ rear" by auto
next
  assume a: "(\<forall>b \<in> set (KNOWN_BROWSERS cfg). \<not> suffix b title)
        \<or> (\<forall>(k, c) \<in> set (TITLE_CLEANUP_RULES cfg). \<not> sublist k title)"
  assume short: "\<not> MAX_TITLE_LENGTH cfg < int (length title)"
  show "sanitize_window_title cfg title = title"
    using sanitize_fallthrough [OF a] short by simp
qed

theorem sanitize_window_title_spec_witness:
  "3 < MAX_TITLE_LENGTH demo_config
   \<and> [] \<notin> set (KNOWN_BROWSERS demo_config)
   \<and> sanitize_window_title demo_config ''Cats - YouTube - Mozilla Firefox'' = ''YouTube - Mozilla Firefox''
   \<and> sanitize_window_title demo_config ''main.py - project - Visual Studio Code'' = ''...isual Studio Code''
   \<and> sanitize_window_title demo_config ''Terminal'' = ''Terminal''"
proof -
  let ?t = "''Cats - YouTube - Mozilla Firefox''"
  have m: "3 < MAX_TITLE_LENGTH demo_config" by (simp add: demo_config_def)
  have n: "[] \<notin> set (KNOWN_BROWSERS demo_config)" by (simp add: demo_config_def)
  have s1: "suffix ''Mozilla Firefox'' ?t" by code_simp
  have s2: "sublist ''YouTube'' ?t" by code_simp
  have kb: "KNOWN_BROWSERS demo_config = [] @ ''Mozilla Firefox'' # [''Google Chrome'']"
    by (simp add: demo_config_def)
  have tr: "TITLE_CLEANUP_RULES demo_config = [] @ (''YouTube'', ''YouTube'') # [(''GitHub'', ''GitHub'')]"
    by (simp add: demo_config_def)
  have "sanitize_window_title demo_config ?t = ''YouTube'' @ '' - '' @ ''Mozilla Firefox''"
    using sanitize_window_title_spec [OF m n, of ?t, THEN conjunct1, rule_format,
        of "[]" "''Mozilla Firefox''" "[''Google Chrome'']" "[]" "''YouTube''" "''YouTube''"
           "[(''GitHub'', ''GitHub'')]"]
      s1 s2 kb tr by simp
  moreover have "sanitize_window_title demo_config ''main.py - project - Visual Studio Code''
       = ''...isual Studio Code''" by code_simp
  moreover have "sanitize_window_title demo_config ''Terminal'' = ''Terminal''" by code_simp
  ultimately show ?thesis using m n by simp
qed

section \<open>Properties of the snapshot recorder\<close>

text \<open>
  Claim C8. In a recorder cycle whose lock-state check returns true, the statement sent to
  the store inserts the snapshot \<open>(now, "USER_AFK_LOCKED", 0)\<close>, where \<open>now\<close> is the first clock
  reading of the cycle (and the row is in the table afterwards when its timestamp was
  free and is within the retention horizon); the tick buffer is unchanged, the cycle
  neither evicts and counts the ledger nor consults the window-title collaborator, and
  its result does not depend on what that collaborator would return.
\<close>

theorem log_activity_cycle_locked:
  assumes "screen_locked env"
  shows
    "activity_ticks (fst (log_activity_cycle cfg env st)) = activity_ticks st
     \<and> snd (log_activity_cycle cfg env st) =
         [IsScreenLocked,
          InsertOrIgnore (clock env 0) ''USER_AFK_LOCKED'' 0,
          DeleteBefore (clock env 1 - timedelta_hours (LOG_RETENTION_HOURS cfg))]
     \<and> LedgerEvictCount \<notin> set (snd (log_activity_cycle cfg env st))
     \<and> GetActiveWindowTitle \<notin> set (snd (log_activity_cycle cfg env st))
     \<and> activity (fst (log_activity_cycle cfg env st)) =
         delete_before (clock env 1 - timedelta_hours (LOG_RETENTION_HOURS cfg))
           (insert_or_ignore (activity st) (clock env 0) (''USER_AFK_LOCKED'', 0))
     \<and> (activity st (clock env 0) = None
          \<and> clock env 1 - timedelta_hours (LOG_RETENTION_HOURS cfg) \<le> clock env 0
        \<longrightarrow> activity (fst (log_activity_cycle cfg env st)) (clock env 0) = Some (''USER_AFK_LOCKED'', 0))
     \<and> log_activity_cycle cfg (env\<lparr>active_window_title := w\<rparr>) st = log_activity_cycle cfg env st"
  using assms
  by (simp add: log_activity_cycle_def Let_def delete_before_def insert_or_ignore_def)

theorem log_activity_cycle_locked_witness:
  "screen_locked demo_env
   \<and> activity_ticks (fst (log_activity_cycle demo_config demo_env
         \<lparr>activity_ticks = [1, 2, 89999999999], activity = Map.empty\<rparr>)) = [1, 2, 89999999999]
   \<and> snd (log_activity_cycle demo_config demo_env
         \<lparr>activity_ticks = [1, 2, 89999999999], activity = Map.empty\<rparr>) =
       [IsScreenLocked, InsertOrIgnore 90000000000 ''USER_AFK_LOCKED'' 0, DeleteBefore 3600000001]
   \<and> activity (fst (log_activity_cycle demo_config demo_env
         \<lparr>activity_ticks = [1, 2, 89999999999], activity = Map.empty\<rparr>)) 90000000000
       = Some (''USER_AFK_LOCKED'', 0)"
proof -
  let ?st = "\<lparr>activity_ticks = [1, 2, 89999999999], activity = Map.empty\<rparr>"
  have l: "screen_locked demo_env" by (simp add: demo_env_def)
  have c0: "clock demo_env 0 = 90000000000" by (simp add: demo_env_def)
  have c1: "clock demo_env (Suc 0) = 90000000001" by (simp add: demo_env_def)
  note t = log_activity_cycle_locked [OF l, of demo_config ?st]
  have r: "timedelta_hours (LOG_RETENTION_HOURS demo_config) = 86400000000"
    by (simp add: timedelta_hours_def demo_config_def)
  from t have "activity_ticks (fst (log_activity_cycle demo_config demo_env ?st)) = [1, 2, 89999999999]"
    by simp
  moreover from t have "snd (log_activity_cycle demo_config demo_env ?st) =
       [IsScreenLocked, InsertOrIgnore 90000000000 ''USER_AFK_LOCKED'' 0, DeleteBefore 3600000001]"
    by (simp add: c0 c1 r)
  moreover from t have "activity (fst (log_activity_cycle demo_config demo_env ?st)) 90000000000
       = Some (''USER_AFK_LOCKED'', 0)"
    by (simp add: c0 c1 r delete_before_def insert_or_ignore_def)
  ultimately show ?thesis using l by simp
qed

section \<open>Properties of the run-length compression\<close>























section \<open>Properties of the redaction cache and of the exempt titles\<close>

lemma set_unique_titles:
  "t \<in> set (unique_titles rows) \<longleftrightarrow>
     (\<exists>ts a. (ts, t, a) \<in> set rows) \<and> \<not> (t = [] \<or> sublist ''USER_AFK'' t)"
  by (force simp: unique_titles_def)




lemma get_activity_log_todo:
  "fst (snd (get_activity_log cfg ollama now h q cache)) =
     (case q of None \<Rightarrow> [] | Some rows \<Rightarrow> titles_to_anonymize cache (unique_titles rows))"
  by (cases q) (auto simp: get_activity_log_def Let_def unique_titles_def titles_to_anonymize_def)








lemma exempt_title_label:
  "t \<notin> set titles \<Longrightarrow> row_label (anonymization_map cache titles) (ts, t, a) = t"
  by (simp add: row_label_def anonymized_title_def anonymization_map_def)

lemma render_loop_one:
  "render_loop cfg [(start, d, t, avg)] acc =
     (if too_short cfg d then acc
      else if sublist ''USER_AFK'' t
      then acc @ strftime_HM start @ '' ('' @ format_duration_compact d @ ''): '' @ t @ ''\<newline>''
      else acc @ strftime_HM start @ '' ('' @ format_duration_compact d @ ''): (Avg APM: ''
             @ show_int avg @ '') '' @ t @ ''\<newline>'')"
  by (simp add: Let_def)



section \<open>The AFK sentinel\<close>

text \<open>
  Claim C4 fails where it says that the rows with the sentinel title never contribute an
  APM value: the recorder stores the APM 0 with them, not \<^verbatim>\<open>NULL\<close>, and the loop
  accumulates every APM that is not \<open>None\<close>. After three such rows the open block holds
  the three values.
\<close>

theorem afk_rows_accumulate_counterexample:
  "current_block
     (timeline_loop (anonymization_map Map.empty (unique_titles demo_afk_rows)) demo_afk_rows
        \<lparr>timeline = [], current_block = None\<rparr>)
   = Some (''USER_AFK_LOCKED'', 36000000000, [0, 0, 0])"
  by code_simp

text \<open>
  Claim C4, amended. The sentinel title \<open>USER_AFK_LOCKED\<close> is never in the set of titles sent
  through the redactor and never dispatched; a row that carries it keeps it as its label
  whatever the cache holds; a block with that label is rendered without the
  \<open>(Avg APM: n)\<close> segment. The APM stored with such a row is accumulated by the open block
  like that of any other row (the recorder stores 0).
\<close>

theorem afk_sentinel_rows:
  "''USER_AFK_LOCKED'' \<notin> set (unique_titles rows)
   \<and> ''USER_AFK_LOCKED'' \<notin> set (fst (snd (get_activity_log cfg ollama now h q cache)))
   \<and> row_label (anonymization_map cache2 (unique_titles rows)) (ts, ''USER_AFK_LOCKED'', a)
       = ''USER_AFK_LOCKED''
   \<and> render_loop cfg [(start, d, ''USER_AFK_LOCKED'', avg)] acc =
       (if too_short cfg d then acc
        else acc @ strftime_HM start @ '' ('' @ format_duration_compact d @ ''): USER_AFK_LOCKED\<newline>'')
   \<and> timeline_step (anonymization_map cache2 (unique_titles rows))
         \<lparr>timeline = T, current_block = Some (''USER_AFK_LOCKED'', start, vals)\<rparr>
         (ts, ''USER_AFK_LOCKED'', Some v)
       = \<lparr>timeline = T, current_block = Some (''USER_AFK_LOCKED'', start, vals @ [v])\<rparr>"
proof -
  have s: "sublist ''USER_AFK'' ''USER_AFK_LOCKED''" by code_simp
  then have nu: "''USER_AFK_LOCKED'' \<notin> set (unique_titles rows')" for rows'
    by (simp add: set_unique_titles)
  have 2: "''USER_AFK_LOCKED'' \<notin> set (fst (snd (get_activity_log cfg ollama now h q cache)))"
    using nu by (cases q) (simp_all add: get_activity_log_todo titles_to_anonymize_def)
  have 3: "row_label (anonymization_map cache2 (unique_titles rows)) (ts', ''USER_AFK_LOCKED'', a')
       = ''USER_AFK_LOCKED''" for ts' a'
    using nu by (rule exempt_title_label)
  have 4: "render_loop cfg [(start, d, ''USER_AFK_LOCKED'', avg)] acc =
       (if too_short cfg d then acc
        else acc @ strftime_HM start @ '' ('' @ format_duration_compact d @ ''): USER_AFK_LOCKED\<newline>'')"
    using s by (simp add: render_loop_one)
  have "anonymized_title (anonymization_map cache2 (unique_titles rows)) ''USER_AFK_LOCKED''
          = ''USER_AFK_LOCKED''"
    using 3 [of 0 None] by (simp add: row_label_def)
  then have 5: "timeline_step (anonymization_map cache2 (unique_titles rows))
         \<lparr>timeline = T, current_block = Some (''USER_AFK_LOCKED'', start, vals)\<rparr>
         (ts, ''USER_AFK_LOCKED'', Some v)
       = \<lparr>timeline = T, current_block = Some (''USER_AFK_LOCKED'', start, vals @ [v])\<rparr>"
    by (simp add: timeline_step_def Let_def)
  from nu 2 3 4 5 show ?thesis by blast
qed

theorem afk_sentinel_rows_witness:
  "''USER_AFK_LOCKED'' \<notin> set (unique_titles demo_afk_rows)
   \<and> fst (snd (get_activity_log demo_config demo_ollama_down 36300000000 1 (Some demo_afk_rows) Map.empty)) = []
   \<and> snd (snd (get_activity_log demo_config demo_ollama_down 36300000000 1 (Some demo_afk_rows) Map.empty))
       = ''Timeline of focused windows & AFK status (last 1h):\<newline>10:00 (5m): USER_AFK_LOCKED''"
proof -
  have "''USER_AFK_LOCKED'' \<notin> set (unique_titles demo_afk_rows)"
    using afk_sentinel_rows [of demo_afk_rows] by blast
  moreover have "fst (snd (get_activity_log demo_config demo_ollama_down 36300000000 1
      (Some demo_afk_rows) Map.empty)) = []" by code_simp
  moreover have "snd (snd (get_activity_log demo_config demo_ollama_down 36300000000 1
      (Some demo_afk_rows) Map.empty))
       = ''Timeline of focused windows & AFK status (last 1h):\<newline>10:00 (5m): USER_AFK_LOCKED''"
    by code_simp
  ultimately show ?thesis by blast
qed

section \<open>Properties of the rendering\<close>

lemma render_loop_concat:
  "render_loop cfg bs acc =
     acc @ concat (map block_line (filter (\<lambda>(start, d, title, avg). \<not> too_short cfg d) bs))"
  by (induction cfg bs acc rule: render_loop.induct) (simp_all add: block_line_def Let_def)

lemma format_seconds:
  assumes "0 \<le> d" "d div 1000000 < 60"
  shows "format_duration_compact d = show_int (d div 1000000) @ ''s''"
  using assms by (simp add: format_duration_compact_def trunc_div_def Let_def)

lemma div_div_60: "(d::int) div 1000000 div 60 = d div 60000000"
  by (simp add: zdiv_zmult2_eq [symmetric])

lemma div_div_3600: "(d::int) div 60000000 div 60 = d div 3600000000"
  by (simp add: zdiv_zmult2_eq [symmetric])

lemma format_minutes:
  assumes "60 \<le> d div 1000000" "d div 1000000 < 3600"
  shows "format_duration_compact d = show_int (d div 60000000) @ ''m''"
proof -
  from assms have "0 \<le> d" by (simp add: pos_imp_zdiv_nonneg_iff [symmetric] del: pos_imp_zdiv_nonneg_iff) 
  moreover from assms have "d div 1000000 div 60 < 60" by simp
  ultimately show ?thesis using assms
    by (simp add: format_duration_compact_def trunc_div_def Let_def div_div_60)
qed

lemma format_hours:
  assumes "3600 \<le> d div 1000000"
  shows "format_duration_compact d =
           (if (d div 60000000) mod 60 = 0 then show_int (d div 3600000000) @ ''h''
            else show_int (d div 3600000000) @ ''h'' @ show_int ((d div 60000000) mod 60) @ ''m'')"
proof -
  from assms have "0 \<le> d" by (simp add: pos_imp_zdiv_nonneg_iff [symmetric] del: pos_imp_zdiv_nonneg_iff) 
  moreover from assms have "\<not> d div 1000000 div 60 < 60" by simp
  ultimately show ?thesis using assms
    by (simp add: format_duration_compact_def trunc_div_def Let_def div_div_60 div_div_3600)
qed

text \<open>
  Claim C7 fails in the format of a line: the renderer writes a colon after the
  parenthesised duration. A block of two minutes that starts at 10:00 with the label
  \<open>A\<close> and the average 6 is rendered \<open>10:00 (2m): (Avg APM: 6) A\<close>, not
  \<open>10:00 (2m) (Avg APM: 6) A\<close>.
\<close>

theorem render_line_format_counterexample:
  "render_timeline demo_config 1 [(36000000000, 120000000, ''A'', 6)]
     = ''Timeline of focused windows & AFK status (last 1h):\<newline>10:00 (2m): (Avg APM: 6) A''
   \<and> render_timeline demo_config 1 [(36000000000, 120000000, ''A'', 6)]
     \<noteq> ''Timeline of focused windows & AFK status (last 1h):\<newline>10:00 (2m) (Avg APM: 6) A''"
  by code_simp

text \<open>
  Claim C7, amended. The rendered text is the header followed by one line for each
  block whose duration is at least \<open>LOG_INTERVAL_SECONDS / 2\<close>, in order and with the
  durations the timeline gave them, stripped of white space at both ends; every shorter
  block is left out. The line of a block whose label contains \<open>USER_AFK\<close> is
  \<open>HH:MM (duration): label\<close>, the line of any other block is
  \<open>HH:MM (duration): (Avg APM: n) label\<close>. A duration of \<open>s\<close> whole seconds is rendered
  \<open>Ns\<close> when \<open>s < 60\<close>, \<open>Nm\<close> when it is under 60 minutes, and otherwise \<open>Nh\<close> when the
  minutes beyond the hours are zero and \<open>NhMm\<close> when they are not.
\<close>

theorem render_timeline_spec:
  "render_timeline cfg h bs =
     py_strip is_space
       (''Timeline of focused windows & AFK status (last '' @ show_int h @ ''h):\<newline>''
        @ concat (map block_line
            (filter (\<lambda>(start, d, title, avg). LOG_INTERVAL_SECONDS cfg * 1000000 \<le> 2 * d) bs)))
   \<and> (sublist ''USER_AFK'' title \<longrightarrow>
        block_line (start, d, title, avg) =
          strftime_HM start @ '' ('' @ format_duration_compact d @ ''): '' @ title @ ''\<newline>'')
   \<and> (\<not> sublist ''USER_AFK'' title \<longrightarrow>
        block_line (start, d, title, avg) =
          strftime_HM start @ '' ('' @ format_duration_compact d @ ''): (Avg APM: '' @ show_int avg
            @ '') '' @ title @ ''\<newline>'')
   \<and> (0 \<le> d \<and> d div 1000000 < 60 \<longrightarrow>
        format_duration_compact d = show_int (d div 1000000) @ ''s'')
   \<and> (60 \<le> d div 1000000 \<and> d div 1000000 < 3600 \<longrightarrow>
        format_duration_compact d = show_int (d div 60000000) @ ''m'')
   \<and> (3600 \<le> d div 1000000 \<and> (d div 60000000) mod 60 = 0 \<longrightarrow>
        format_duration_compact d = show_int (d div 3600000000) @ ''h'')
   \<and> (3600 \<le> d div 1000000 \<and> (d div 60000000) mod 60 \<noteq> 0 \<longrightarrow>
        format_duration_compact d =
          show_int (d div 3600000000) @ ''h'' @ show_int ((d div 60000000) mod 60) @ ''m'')"
proof (intro conjI impI)
  have "(\<lambda>(start, d, title, avg). \<not> too_short cfg d)
          = (\<lambda>(start :: datetime, d, title :: string, avg :: int). LOG_INTERVAL_SECONDS cfg * 1000000 \<le> 2 * d)"
    by (auto simp: too_short_def fun_eq_iff)
  then show "render_timeline cfg h bs =
     py_strip is_space
       (''Timeline of focused windows & AFK status (last '' @ show_int h @ ''h):\<newline>''
        @ concat (map block_line
            (filter (\<lambda>(start, d, title, avg). LOG_INTERVAL_SECONDS cfg * 1000000 \<le> 2 * d) bs)))"
    by (simp add: render_timeline_def render_loop_concat)
next
  assume "sublist ''USER_AFK'' title"
  then show "block_line (start, d, title, avg) =
          strftime_HM start @ '' ('' @ format_duration_compact d @ ''): '' @ title @ ''\<newline>''"
    by (simp add: block_line_def)
next
  assume "\<not> sublist ''USER_AFK'' title"
  then show "block_line (start, d, title, avg) =
          strftime_HM start @ '' ('' @ format_duration_compact d @ ''): (Avg APM: '' @ show_int avg
            @ '') '' @ title @ ''\<newline>''"
    by (simp add: block_line_def)
next
  assume "0 \<le> d \<and> d div 1000000 < 60"
  then show "format_duration_compact d = show_int (d div 1000000) @ ''s''"
    by (simp add: format_seconds)
next
  assume "60 \<le> d div 1000000 \<and> d div 1000000 < 3600"
  then show "format_duration_compact d = show_int (d div 60000000) @ ''m''"
    by (simp add: format_minutes)
next
  assume "3600 \<le> d div 1000000 \<and> (d div 60000000) mod 60 = 0"
  then show "format_duration_compact d = show_int (d div 3600000000) @ ''h''"
    by (simp add: format_hours)
next
  assume "3600 \<le> d div 1000000 \<and> (d div 60000000) mod 60 \<noteq> 0"
  then show "format_duration_compact d =
          show_int (d div 3600000000) @ ''h'' @ show_int ((d div 60000000) mod 60) @ ''m''"
    by (simp add: format_hours)
qed

theorem render_timeline_spec_witness:
  "render_timeline demo_config 3 demo_blocks =
     ''Timeline of focused windows & AFK status (last 3h):\<newline>10:00 (45s): (Avg APM: 12) Editor\<newline>10:01 (2h): USER_AFK_LOCKED\<newline>12:01 (1h30m): (Avg APM: 4) Mail''
   \<and> format_duration_compact 45000000 = ''45s''
   \<and> format_duration_compact 120000000 = ''2m''
   \<and> format_duration_compact 7200000000 = ''2h''
   \<and> format_duration_compact 5400000000 = ''1h30m''"
proof -
  note t = render_timeline_spec [of demo_config 3 demo_blocks]
  have f: "filter (\<lambda>(start, d, title, avg). LOG_INTERVAL_SECONDS demo_config * 1000000 \<le> 2 * d) demo_blocks
        = [(36000000000, 45000000, ''Editor'', 12), (36065000000, 7200000000, ''USER_AFK_LOCKED'', 0),
           (43265000000, 5400000000, ''Mail'', 4)]"
    by (simp add: demo_blocks_def demo_config_def)
  have l: "py_strip is_space
       (''Timeline of focused windows & AFK status (last '' @ show_int 3 @ ''h):\<newline>''
        @ concat (map block_line [(36000000000, 45000000, ''Editor'', 12),
             (36065000000, 7200000000, ''USER_AFK_LOCKED'', 0), (43265000000, 5400000000, ''Mail'', 4)]))
     = ''Timeline of focused windows & AFK status (last 3h):\<newline>10:00 (45s): (Avg APM: 12) Editor\<newline>10:01 (2h): USER_AFK_LOCKED\<newline>12:01 (1h30m): (Avg APM: 4) Mail''"
    by code_simp
  have 1: "render_timeline demo_config 3 demo_blocks =
     ''Timeline of focused windows & AFK status (last 3h):\<newline>10:00 (45s): (Avg APM: 12) Editor\<newline>10:01 (2h): USER_AFK_LOCKED\<newline>12:01 (1h30m): (Avg APM: 4) Mail''"
    using t [THEN conjunct1] by (simp only: f l)
  have 2: "format_duration_compact 45000000 = ''45s''"
    and 3: "format_duration_compact 120000000 = ''2m''"
    and 4: "format_duration_compact 7200000000 = ''2h''"
    and 5: "format_duration_compact 5400000000 = ''1h30m''"
    by code_simp+
  from 1 2 3 4 5 show ?thesis by blast
qed

section \<open>Properties of the redactor\<close>

subsection \<open>Words\<close>

















subsection \<open>The matcher on keywords made of word characters\<close>










subsection \<open>The substitution removes the forbidden words\<close>













subsection \<open>Whole-word matches and words\<close>







subsection \<open>Stripping\<close>


subsection \<open>The fallback of the redactor\<close>






end
